theory Spec2Isabelle
  imports Main
begin

section \<open>Python strings\<close>

text \<open>
  A Python \<open>str\<close> is modelled by the bytes of its UTF-8 encoding, the form in which the
  source stores text and the destination receives the statements. An ASCII character is
  one byte, and that byte occurs nowhere inside the encoding of another character, so
  \<open>split(',')\<close>, \<open>replace\<close> on the single quote, \<open>join\<close>, \<open>startswith('_')\<close> and the
  comparisons with ASCII constants act on the bytes as they act on the code points.

  \<open>lower()\<close> and \<open>upper()\<close> are exact on every code point whose image holds an ASCII
  character: the 26 letters, and the code points listed in \<open>lower_special\<close> (U+0130,
  U+212A) and \<open>upper_special\<close> (U+00DF, U+0131, U+0149, U+017F, U+01F0, U+1E96 to
  U+1E9A, U+FB00 to U+FB06), each with the encoding of its image. The image of any
  other code point holds no ASCII character; the model leaves such a code point in
  place, which the comparisons with \<open>scope\<close>, the reserved words and the keys of the type
  table cannot tell apart from its image. \<open>strip()\<close> removes the 29 code points that
  \<open>str.isspace\<close> accepts, listed in \<open>whitespace\<close> by their encodings.
\<close>

abbreviation squote :: char where
  "squote \<equiv> CHR 0x27"

abbreviation dquote :: char where
  "dquote \<equiv> CHR 0x22"

text \<open>\<open>s.startswith(prefix)\<close>\<close>

fun startswith :: "string \<Rightarrow> string \<Rightarrow> bool" where
  "startswith s [] = True"
| "startswith [] (p # ps) = False"
| "startswith (c # cs) (p # ps) = (c = p \<and> startswith cs ps)"

definition lower_char :: "char \<Rightarrow> char" where
  "lower_char c =
     (case map_of (zip ''ABCDEFGHIJKLMNOPQRSTUVWXYZ'' ''abcdefghijklmnopqrstuvwxyz'') c of
        Some d \<Rightarrow> d
      | None \<Rightarrow> c)"

definition upper_char :: "char \<Rightarrow> char" where
  "upper_char c =
     (case map_of (zip ''abcdefghijklmnopqrstuvwxyz'' ''ABCDEFGHIJKLMNOPQRSTUVWXYZ'') c of
        Some d \<Rightarrow> d
      | None \<Rightarrow> c)"

definition lower_special :: "(string \<times> string) list" where
  "lower_special =
     [([CHR 0xC4, CHR 0xB0], [CHR 0x69, CHR 0xCC, CHR 0x87]),
      ([CHR 0xE2, CHR 0x84, CHR 0xAA], [CHR 0x6B])]"

definition upper_special :: "(string \<times> string) list" where
  "upper_special =
     [([CHR 0xC3, CHR 0x9F], [CHR 0x53, CHR 0x53]),
      ([CHR 0xC4, CHR 0xB1], [CHR 0x49]),
      ([CHR 0xC5, CHR 0x89], [CHR 0xCA, CHR 0xBC, CHR 0x4E]),
      ([CHR 0xC5, CHR 0xBF], [CHR 0x53]),
      ([CHR 0xC7, CHR 0xB0], [CHR 0x4A, CHR 0xCC, CHR 0x8C]),
      ([CHR 0xE1, CHR 0xBA, CHR 0x96], [CHR 0x48, CHR 0xCC, CHR 0xB1]),
      ([CHR 0xE1, CHR 0xBA, CHR 0x97], [CHR 0x54, CHR 0xCC, CHR 0x88]),
      ([CHR 0xE1, CHR 0xBA, CHR 0x98], [CHR 0x57, CHR 0xCC, CHR 0x8A]),
      ([CHR 0xE1, CHR 0xBA, CHR 0x99], [CHR 0x59, CHR 0xCC, CHR 0x8A]),
      ([CHR 0xE1, CHR 0xBA, CHR 0x9A], [CHR 0x41, CHR 0xCA, CHR 0xBE]),
      ([CHR 0xEF, CHR 0xAC, CHR 0x80], [CHR 0x46, CHR 0x46]),
      ([CHR 0xEF, CHR 0xAC, CHR 0x81], [CHR 0x46, CHR 0x49]),
      ([CHR 0xEF, CHR 0xAC, CHR 0x82], [CHR 0x46, CHR 0x4C]),
      ([CHR 0xEF, CHR 0xAC, CHR 0x83], [CHR 0x46, CHR 0x46, CHR 0x49]),
      ([CHR 0xEF, CHR 0xAC, CHR 0x84], [CHR 0x46, CHR 0x46, CHR 0x4C]),
      ([CHR 0xEF, CHR 0xAC, CHR 0x85], [CHR 0x53, CHR 0x54]),
      ([CHR 0xEF, CHR 0xAC, CHR 0x86], [CHR 0x53, CHR 0x54])]"

text \<open>
  The case mappings go through the string from the left: the encoding of a special code
  point is replaced by the encoding of its image, any other byte by its ASCII image.
\<close>

fun case_map :: "(char \<Rightarrow> char) \<Rightarrow> (string \<times> string) list \<Rightarrow> string \<Rightarrow> string" where
  "case_map f special [] = []"
| "case_map f special (c # cs) =
     (case find (\<lambda>entry. startswith (c # cs) (fst entry)) special of
        Some entry \<Rightarrow> snd entry @ case_map f special (drop (length (fst entry) - 1) cs)
      | None \<Rightarrow> f c # case_map f special cs)"

definition lower :: "string \<Rightarrow> string" where
  "lower s = case_map lower_char lower_special s"

definition upper :: "string \<Rightarrow> string" where
  "upper s = case_map upper_char upper_special s"

definition whitespace :: "string list" where
  "whitespace =
     [[CHR 0x09],
      [CHR 0x0A],
      [CHR 0x0B],
      [CHR 0x0C],
      [CHR 0x0D],
      [CHR 0x1C],
      [CHR 0x1D],
      [CHR 0x1E],
      [CHR 0x1F],
      [CHR 0x20],
      [CHR 0xC2, CHR 0x85],
      [CHR 0xC2, CHR 0xA0],
      [CHR 0xE1, CHR 0x9A, CHR 0x80],
      [CHR 0xE2, CHR 0x80, CHR 0x80],
      [CHR 0xE2, CHR 0x80, CHR 0x81],
      [CHR 0xE2, CHR 0x80, CHR 0x82],
      [CHR 0xE2, CHR 0x80, CHR 0x83],
      [CHR 0xE2, CHR 0x80, CHR 0x84],
      [CHR 0xE2, CHR 0x80, CHR 0x85],
      [CHR 0xE2, CHR 0x80, CHR 0x86],
      [CHR 0xE2, CHR 0x80, CHR 0x87],
      [CHR 0xE2, CHR 0x80, CHR 0x88],
      [CHR 0xE2, CHR 0x80, CHR 0x89],
      [CHR 0xE2, CHR 0x80, CHR 0x8A],
      [CHR 0xE2, CHR 0x80, CHR 0xA8],
      [CHR 0xE2, CHR 0x80, CHR 0xA9],
      [CHR 0xE2, CHR 0x80, CHR 0xAF],
      [CHR 0xE2, CHR 0x81, CHR 0x9F],
      [CHR 0xE3, CHR 0x80, CHR 0x80]]"

text \<open>
  \<open>strip()\<close> drops whitespace characters from the left end and from the right end;
  the right end is treated on the reversed string with the reversed encodings.
\<close>

fun drop_leading :: "string list \<Rightarrow> string \<Rightarrow> string" where
  "drop_leading seqs [] = []"
| "drop_leading seqs (c # cs) =
     (case find (\<lambda>w. startswith (c # cs) w) seqs of
        Some w \<Rightarrow> drop_leading seqs (drop (length w - 1) cs)
      | None \<Rightarrow> c # cs)"

definition lstrip :: "string \<Rightarrow> string" where
  "lstrip s = drop_leading whitespace s"

definition rstrip :: "string \<Rightarrow> string" where
  "rstrip s = rev (drop_leading (map rev whitespace) (rev s))"

definition strip :: "string \<Rightarrow> string" where
  "strip s = rstrip (lstrip s)"

text \<open>\<open>s.split(sep)\<close> for a one-character separator: never an empty list, \<open>''.split(',')\<close> is \<open>['']\<close>.\<close>

fun split :: "char \<Rightarrow> string \<Rightarrow> string list" where
  "split sep [] = [[]]"
| "split sep (c # cs) =
     (if c = sep then [] # split sep cs
      else (c # hd (split sep cs)) # tl (split sep cs))"

text \<open>\<open>s.replace(old, new)\<close> for a one-character \<open>old\<close>: every occurrence, left to right.\<close>

definition str_replace :: "char \<Rightarrow> string \<Rightarrow> string \<Rightarrow> string" where
  "str_replace old new s = concat (map (\<lambda>c. if c = old then new else [c]) s)"

fun join :: "string \<Rightarrow> string list \<Rightarrow> string" where
  "join sep [] = []"
| "join sep [x] = x"
| "join sep (x # y # ys) = x @ sep @ join sep (y # ys)"

section \<open>Type mapper and identifier sanitizer\<close>

definition type_mapping :: "(string \<times> string) list" where
  "type_mapping =
     [(''INTEGER'', ''INTEGER''),
      (''REAL'', ''DOUBLE PRECISION''),
      (''TEXT'', ''TEXT''),
      (''BLOB'', ''BYTEA''),
      (''BOOLEAN'', ''BOOLEAN''),
      (''TIMESTAMP'', ''TIMESTAMP''),
      (''JSON'', ''JSONB''),
      (''VARCHAR(255)'', ''VARCHAR(255)'')]"

definition sqlite_to_pg_type :: "string \<Rightarrow> string \<Rightarrow> string" where
  "sqlite_to_pg_type sqlite_type column_name =
     (if lower column_name = ''scope'' then ''TEXT[]''
      else (case map_of type_mapping (upper sqlite_type) of
              Some pg_type \<Rightarrow> pg_type
            | None \<Rightarrow> ''TEXT''))"

definition reserved_keywords :: "string list" where
  "reserved_keywords =
     [''user'', ''group'', ''order'', ''table'', ''select'', ''where'', ''from'',
      ''index'', ''constraint'']"

definition get_safe_identifier :: "string \<Rightarrow> string" where
  "get_safe_identifier identifier =
     (if lower identifier \<in> set reserved_keywords
      then [dquote] @ identifier @ [dquote]
      else identifier)"

section \<open>Values read from the source\<close>

text \<open>
  \<open>sqlite3\<close> hands a column value over as \<open>None\<close>, an \<open>int\<close>, a \<open>float\<close>, a \<open>str\<close>
  or a \<open>bytes\<close> object. A float is represented by the text \<open>repr\<close> gives it
  (\<open>1.0\<close>, \<open>-0.0\<close>, \<open>2.5e-05\<close>, \<open>inf\<close>), which determines the float and is what
  \<open>str(value)\<close> returns.
\<close>

datatype py_value =
    PyNone
  | PyInt int
  | PyFloat string
  | PyStr string
  | PyBytes string

datatype error = AttributeError | TypeError | PgError

text \<open>\<open>value == 1\<close>\<close>

fun eq_one :: "py_value \<Rightarrow> bool" where
  "eq_one PyNone = False"
| "eq_one (PyInt n) = (n = 1)"
| "eq_one (PyFloat r) = (r = ''1.0'')"
| "eq_one (PyStr s) = False"
| "eq_one (PyBytes b) = False"

text \<open>\<open>not value\<close>\<close>

fun falsy :: "py_value \<Rightarrow> bool" where
  "falsy PyNone = True"
| "falsy (PyInt n) = (n = 0)"
| "falsy (PyFloat r) = (r = ''0.0'' \<or> r = ''-0.0'')"
| "falsy (PyStr s) = (s = [])"
| "falsy (PyBytes b) = (b = [])"

fun str_nat :: "nat \<Rightarrow> string" where
  "str_nat n =
     (if n < 10 then [''0123456789'' ! n]
      else str_nat (n div 10) @ [''0123456789'' ! (n mod 10)])"

declare str_nat.simps [simp del]

definition str_int :: "int \<Rightarrow> string" where
  "str_int i = (if i < 0 then CHR ''-'' # str_nat (nat (- i)) else str_nat (nat i))"

text \<open>
  \<open>repr\<close> of a \<open>bytes\<close> object: double quotes are chosen when the bytes hold a single
  quote and no double quote; the chosen quote and the backslash are escaped, tab, LF
  and CR are written symbolically, other bytes outside \<open>0x20..0x7e\<close> as \<open>\xNN\<close>.
\<close>

definition bytes_repr_char :: "char \<Rightarrow> char \<Rightarrow> string" where
  "bytes_repr_char q c =
     (if c = q \<or> c = CHR 0x5C then [CHR 0x5C, c]
      else if c = CHR 0x09 then [CHR 0x5C, CHR ''t'']
      else if c = CHR 0x0A then [CHR 0x5C, CHR ''n'']
      else if c = CHR 0x0D then [CHR 0x5C, CHR ''r'']
      else if (of_char c :: nat) < 32 \<or> 127 \<le> (of_char c :: nat)
        then [CHR 0x5C, CHR ''x'',
              ''0123456789abcdef'' ! ((of_char c :: nat) div 16),
              ''0123456789abcdef'' ! ((of_char c :: nat) mod 16)]
      else [c])"

definition bytes_repr :: "string \<Rightarrow> string" where
  "bytes_repr b =
     (let q = (if squote \<in> set b \<and> dquote \<notin> set b then dquote else squote)
      in [CHR ''b'', q] @ concat (map (bytes_repr_char q) b) @ [q])"

text \<open>\<open>str(value)\<close>\<close>

fun py_str :: "py_value \<Rightarrow> string" where
  "py_str PyNone = ''None''"
| "py_str (PyInt n) = str_int n"
| "py_str (PyFloat r) = r"
| "py_str (PyStr s) = s"
| "py_str (PyBytes b) = bytes_repr b"

section \<open>Row translation\<close>

text \<open>
  The dictionary \<open>pg_column_types\<close> is filled from the rows
  \<open>(column_name, data_type, udt_name)\<close> of \<open>information_schema.columns\<close>; a later row
  for the same column name overwrites an earlier one.
\<close>

definition pg_column_types :: "(string \<times> string \<times> string) list \<Rightarrow> (string \<rightharpoonup> string)" where
  "pg_column_types cols =
     fold (\<lambda>col types.
             types(fst col \<mapsto>
               (if startswith (snd (snd col)) ''_'' then ''ARRAY'' else fst (snd col))))
          cols Map.empty"

definition quote_literal :: "string \<Rightarrow> string" where
  "quote_literal v = [squote] @ str_replace squote [squote, squote] v @ [squote]"

text \<open>
  The body of the loop over \<open>zip(column_names, row)\<close>: \<open>col_type\<close> is
  \<open>pg_column_types.get(col_name)\<close>. In an \<open>ARRAY\<close> column a value that is neither
  falsy nor a \<open>str\<close> has no usable \<open>split\<close>: an \<open>int\<close> or a \<open>float\<close> raises
  \<open>AttributeError\<close>, a \<open>bytes\<close> object \<open>TypeError\<close> (its \<open>split\<close> refuses a \<open>str\<close>
  separator).
\<close>

definition translate_value :: "string option \<Rightarrow> py_value \<Rightarrow> error + string" where
  "translate_value col_type v =
     (if v = PyNone then Inr ''NULL''
      else if col_type = Some ''boolean'' then Inr (if eq_one v then ''true'' else ''false'')
      else if col_type = Some ''ARRAY'' then
        (if falsy v then Inr ''NULL''
         else (case v of
                 PyStr s \<Rightarrow>
                   Inr (''ARRAY['' @
                        join '','' (map (\<lambda>p. quote_literal (strip p)) (split CHR '','' s)) @
                        '']'')
               | PyBytes b \<Rightarrow> Inl TypeError
               | _ \<Rightarrow> Inl AttributeError))
      else (case v of
              PyStr s \<Rightarrow> Inr (quote_literal s)
            | _ \<Rightarrow> Inr (py_str v)))"

fun translate_pairs :: "(string \<rightharpoonup> string) \<Rightarrow> (string \<times> py_value) list \<Rightarrow> error + string list" where
  "translate_pairs types [] = Inr []"
| "translate_pairs types ((col_name, v) # ps) =
     (case translate_value (types col_name) v of
        Inl e \<Rightarrow> Inl e
      | Inr lit \<Rightarrow>
          (case translate_pairs types ps of
             Inl e \<Rightarrow> Inl e
           | Inr lits \<Rightarrow> Inr (lit # lits)))"

definition translate_row ::
  "string list \<Rightarrow> py_value list \<Rightarrow> (string \<rightharpoonup> string) \<Rightarrow> error + string list" where
  "translate_row column_names row types = translate_pairs types (zip column_names row)"

section \<open>Statements and the migration loop\<close>

definition create_table_sql :: "string \<Rightarrow> (string \<times> string) list \<Rightarrow> string" where
  "create_table_sql safe_table_name sqlite_schema =
     ''CREATE TABLE IF NOT EXISTS '' @ safe_table_name @ '' ('' @
     join '', '' (map (\<lambda>col. get_safe_identifier (fst col) @ '' '' @
                              sqlite_to_pg_type (snd col) (fst col)) sqlite_schema) @
     '')''"

definition insert_sql :: "string \<Rightarrow> string list \<Rightarrow> string list \<Rightarrow> string" where
  "insert_sql safe_table_name column_names vals =
     ''INSERT INTO '' @ safe_table_name @ '' ('' @
     join '', '' (map get_safe_identifier column_names) @ '') VALUES ('' @
     join '', '' vals @ '')''"

text \<open>
  The destination is an external collaborator. Its state is any type \<open>'pg\<close>; the three
  introspection queries are read as functions of that state, and a statement sent to
  \<open>pg_cursor.execute\<close> either yields the next state or is rejected (\<open>None\<close>), which
  raises. Console output is not modelled.
\<close>

record 'pg destination =
  pg_table_exists :: "'pg \<Rightarrow> string \<Rightarrow> bool"
  pg_row_count :: "'pg \<Rightarrow> string \<Rightarrow> int"
  pg_columns :: "'pg \<Rightarrow> string \<Rightarrow> (string \<times> string \<times> string) list"
  pg_execute :: "'pg \<Rightarrow> string \<Rightarrow> 'pg option"

text \<open>
  What the source answers for one table: its name in \<open>sqlite_master\<close>, the name and
  declared type of each row of \<open>PRAGMA table_info\<close>, the column names of
  \<open>cursor.description\<close> after \<open>SELECT *\<close>, and the rows.
\<close>

record source_table =
  table_name :: string
  table_info :: "(string \<times> string) list"
  description :: "string list"
  table_rows :: "py_value list list"

datatype statement = CreateTable string | Insert string

text \<open>
  The loop over the rows. The result is the destination state, the statements sent so
  far and the exception that ended the loop, if any.
\<close>

fun migrate_rows ::
  "'pg destination \<Rightarrow> string \<Rightarrow> string list \<Rightarrow> (string \<rightharpoonup> string) \<Rightarrow> 'pg \<Rightarrow>
   py_value list list \<Rightarrow> 'pg \<times> statement list \<times> error option" where
  "migrate_rows dest safe_table_name column_names types pg [] = (pg, [], None)"
| "migrate_rows dest safe_table_name column_names types pg (row # rows) =
     (case translate_row column_names row types of
        Inl e \<Rightarrow> (pg, [], Some e)
      | Inr vals \<Rightarrow>
          (let sql = insert_sql safe_table_name column_names vals in
           case pg_execute dest pg sql of
             None \<Rightarrow> (pg, [Insert sql], Some PgError)
           | Some pg1 \<Rightarrow>
               (case migrate_rows dest safe_table_name column_names types pg1 rows of
                  (pg2, log, r) \<Rightarrow> (pg2, Insert sql # log, r))))"

text \<open>
  The part of the loop body after \<open>print("  - migrating")\<close>: the destination column
  types are read first, then the table is created if it did not exist, then the rows
  are inserted and the transaction is committed. An exception rolls the destination
  back to where the last commit left it, the state \<open>pg\<close> this table started from.
\<close>

definition migrate_data ::
  "'pg destination \<Rightarrow> 'pg \<Rightarrow> source_table \<Rightarrow> bool \<Rightarrow> 'pg \<times> statement list \<times> error option" where
  "migrate_data dest pg t table_exists =
     (let safe_table_name = get_safe_identifier (table_name t);
          types = pg_column_types (pg_columns dest pg (table_name t));
          created =
            (if \<not> table_exists then
               (let sql = create_table_sql safe_table_name (table_info t) in
                case pg_execute dest pg sql of
                  None \<Rightarrow> (pg, [CreateTable sql], Some PgError)
                | Some pg1 \<Rightarrow> (pg1, [CreateTable sql], None))
             else (pg, [], None))
      in case created of
           (pg1, log1, Some e) \<Rightarrow> (pg, log1, Some e)
         | (pg1, log1, None) \<Rightarrow>
             (case migrate_rows dest safe_table_name (description t) types pg1 (table_rows t) of
                (pg2, log2, r) \<Rightarrow> (if r = None then pg2 else pg, log1 @ log2, r)))"

definition migrate_table ::
  "'pg destination \<Rightarrow> 'pg \<Rightarrow> source_table \<Rightarrow> 'pg \<times> statement list \<times> error option" where
  "migrate_table dest pg t =
     (let safe_table_name = get_safe_identifier (table_name t) in
      if table_name t \<in> set [''migratehistory'', ''alembic_version''] then (pg, [], None)
      else
        (let table_exists = pg_table_exists dest pg (table_name t) in
         if table_exists then
           (let row_count = pg_row_count dest pg safe_table_name in
            if row_count > 0 then (pg, [], None)
            else migrate_data dest pg t table_exists)
         else migrate_data dest pg t table_exists))"

text \<open>
  The loop over the tables. Each processed table leaves an entry in the log: the
  destination state it was processed in, its name and the statements sent for it.
  The first exception ends the run.
\<close>

fun migrate ::
  "'pg destination \<Rightarrow> 'pg \<Rightarrow> source_table list \<Rightarrow>
   'pg \<times> ('pg \<times> string \<times> statement list) list \<times> error option" where
  "migrate dest pg [] = (pg, [], None)"
| "migrate dest pg (t # ts) =
     (case migrate_table dest pg t of
        (pg1, log, Some e) \<Rightarrow> (pg1, [(pg, table_name t, log)], Some e)
      | (pg1, log, None) \<Rightarrow>
          (case migrate dest pg1 ts of
             (pg2, logs, r) \<Rightarrow> (pg2, (pg, table_name t, log) # logs, r)))"

text \<open>
  A destination for concrete scenarios: its catalogue (table name, column rows, row
  count) is fixed, it accepts every statement, and its state is the list of the
  statements it has received.
\<close>

definition recording_destination ::
  "(string \<times> (string \<times> string \<times> string) list \<times> int) list \<Rightarrow> (string list) destination" where
  "recording_destination catalogue =
     \<lparr> pg_table_exists = (\<lambda>pg name. name \<in> set (map fst catalogue)),
       pg_row_count = (\<lambda>pg safe_name.
          (case find (\<lambda>entry. get_safe_identifier (fst entry) = safe_name) catalogue of
             Some entry \<Rightarrow> snd (snd entry)
           | None \<Rightarrow> 0)),
       pg_columns = (\<lambda>pg name.
          (case find (\<lambda>entry. fst entry = name) catalogue of
             Some entry \<Rightarrow> fst (snd entry)
           | None \<Rightarrow> [])),
       pg_execute = (\<lambda>pg sql. Some (pg @ [sql])) \<rparr>"

section \<open>Specification-side definitions\<close>




text \<open>
  The source table of the end-to-end scenario: \<open>orders(id INTEGER, name TEXT, scope TEXT)\<close>
  with the single row \<open>(1, "A's", "read,write")\<close>.
\<close>

definition orders_table :: source_table where
  "orders_table =
     \<lparr> table_name = ''orders'',
       table_info = [(''id'', ''INTEGER''), (''name'', ''TEXT''), (''scope'', ''TEXT'')],
       description = [''id'', ''name'', ''scope''],
       table_rows = [[PyInt 1, PyStr (''A'' @ [squote] @ ''s''), PyStr ''read,write'']] \<rparr>"

section \<open>Facts about the string operations\<close>

lemma str_replace_keeps_other:
  "filter (\<lambda>c. c \<noteq> old) (str_replace old [old, old] s) = filter (\<lambda>c. c \<noteq> old) s"
  by (induction s) (simp_all add: str_replace_def)

lemma str_replace_doubles:
  "count_list (str_replace old [old, old] s) old = 2 * count_list s old"
  by (induction s) (simp_all add: str_replace_def)

lemma split_not_Nil: "split sep s \<noteq> []"
  by (induction s) simp_all

lemma split_Cons:
  "split sep (c # cs) =
     (case split sep cs of
        p # ps \<Rightarrow> (if c = sep then [] # p # ps else (c # p) # ps)
      | [] \<Rightarrow> [[c]])"
  using split_not_Nil [of sep cs] by (cases "split sep cs") simp_all

lemma join_split: "join [sep] (split sep s) = s"
proof (induction s)
  case Nil
  show ?case by simp
next
  case (Cons c cs)
  obtain p ps where ps: "split sep cs = p # ps"
    using split_not_Nil [of sep cs] by (cases "split sep cs") simp_all
  show ?case using Cons ps by (cases ps) auto
qed

lemma split_pieces_free: "list_all (\<lambda>p. sep \<notin> set p) (split sep s)"
proof (induction s)
  case Nil
  show ?case by simp
next
  case (Cons c cs)
  obtain p ps where ps: "split sep cs = p # ps"
    using split_not_Nil [of sep cs] by (cases "split sep cs") simp_all
  show ?case using Cons ps by auto
qed

lemma startswith_append: "startswith s w \<Longrightarrow> s = w @ drop (length w) s"
  by (induction s w rule: startswith.induct) simp_all

lemma startswith_appendI: "startswith (w @ s) w"
  by (induction w) simp_all

lemma startswith_prefix: "startswith (s @ t) w \<Longrightarrow> length w \<le> length s \<Longrightarrow> startswith s w"
  by (induction s w rule: startswith.induct) simp_all

lemma drop_leading_decomp:
  "[] \<notin> set seqs \<Longrightarrow>
   \<exists>run. list_all (\<lambda>w. w \<in> set seqs) run \<and> s = concat run @ drop_leading seqs s"
proof (induction seqs s rule: drop_leading.induct)
  case (1 seqs)
  show ?case by (rule exI [of _ "[]"]) simp
next
  case (2 seqs c cs)
  show ?case
  proof (cases "find (\<lambda>w. startswith (c # cs) w) seqs")
    case None
    then show ?thesis by (intro exI [of _ "[]"]) simp
  next
    case (Some w)
    then have w: "w \<in> set seqs" and sw: "startswith (c # cs) w"
      by (auto simp: find_Some_iff)
    from w "2.prems" have ne: "w \<noteq> []" by auto
    from startswith_append [OF sw] ne have split: "c # cs = w @ drop (length w - 1) cs"
      by (cases w) simp_all
    from "2.IH" [OF Some "2.prems"] obtain run where
      run: "list_all (\<lambda>w. w \<in> set seqs) run" and
      rest: "drop (length w - 1) cs = concat run @ drop_leading seqs (drop (length w - 1) cs)"
      by blast
    have dl: "drop_leading seqs (c # cs) = drop_leading seqs (drop (length w - 1) cs)"
      using Some by simp
    have e0: "c # cs = w @ (concat run @ drop_leading seqs (drop (length w - 1) cs))"
      by (subst rest [symmetric]) (rule split)
    have e1: "w @ (concat run @ drop_leading seqs (drop (length w - 1) cs)) =
        concat (w # run) @ drop_leading seqs (c # cs)"
      by (simp only: dl concat.simps append_assoc)
    from e0 e1 have whole: "c # cs = concat (w # run) @ drop_leading seqs (c # cs)"
      by (rule trans)
    have "list_all (\<lambda>w. w \<in> set seqs) (w # run)" using w run by simp
    with whole show ?thesis by blast
  qed
qed

lemma drop_leading_done:
  "[] \<notin> set seqs \<Longrightarrow> list_all (\<lambda>w. \<not> startswith (drop_leading seqs s) w) seqs"
proof (induction seqs s rule: drop_leading.induct)
  case (1 seqs)
  have "\<not> startswith [] w" if "w \<in> set seqs" for w
  proof -
    from that "1.prems" have "w \<noteq> []" by auto
    then show ?thesis by (cases w) simp_all
  qed
  then show ?case by (simp add: list_all_iff)
next
  case (2 seqs c cs)
  show ?case
  proof (cases "find (\<lambda>w. startswith (c # cs) w) seqs")
    case None
    then have same: "drop_leading seqs (c # cs) = c # cs" by simp
    from None have "\<forall>w\<in>set seqs. \<not> startswith (c # cs) w"
      by (simp add: find_None_iff)
    then show ?thesis by (simp only: same list_all_iff)
  next
    case (Some w)
    then show ?thesis using "2.IH" [OF Some "2.prems"] by simp
  qed
qed

lemma whitespace_nonempty: "[] \<notin> set whitespace"
  by (simp add: whitespace_def)

lemma strip_spec:
  "(\<exists>before after. list_all (\<lambda>w. w \<in> set whitespace) before \<and>
       list_all (\<lambda>w. w \<in> set whitespace) after \<and>
       p = concat before @ strip p @ concat after) \<and>
   list_all (\<lambda>w. \<not> startswith (strip p) w \<and> \<not> startswith (rev (strip p)) (rev w)) whitespace"
proof
  have rne: "[] \<notin> set (map rev whitespace)" using whitespace_nonempty by auto
  obtain before where b: "list_all (\<lambda>w. w \<in> set whitespace) before"
    and pb: "p = concat before @ lstrip p"
    using drop_leading_decomp [OF whitespace_nonempty, of p] by (auto simp: lstrip_def)
  obtain run where r: "list_all (\<lambda>w. w \<in> set (map rev whitespace)) run"
    and pr: "rev (lstrip p) = concat run @ rev (strip p)"
    using drop_leading_decomp [OF rne, of "rev (lstrip p)"] by (auto simp: strip_def rstrip_def)
  define after where "after = rev (map rev run)"
  have a: "list_all (\<lambda>w. w \<in> set whitespace) after"
    using r by (auto simp: after_def list_all_iff)
  have "lstrip p = rev (concat run @ rev (strip p))" using pr by (metis rev_rev_ident)
  then have "lstrip p = strip p @ concat after"
    by (simp add: after_def rev_concat rev_map)
  with pb have "p = concat before @ strip p @ concat after" by simp
  with a b show "\<exists>before after. list_all (\<lambda>w. w \<in> set whitespace) before \<and>
       list_all (\<lambda>w. w \<in> set whitespace) after \<and>
       p = concat before @ strip p @ concat after" by blast
  have front: "\<not> startswith (strip p) w" if w: "w \<in> set whitespace" for w
  proof
    assume sw: "startswith (strip p) w"
    have "lstrip p = strip p @ concat after" by fact
    then have "startswith (lstrip p) w"
      using startswith_append [OF sw] startswith_appendI [of w] by (metis append.assoc)
    moreover have "\<not> startswith (lstrip p) w"
      using drop_leading_done [OF whitespace_nonempty, of p] w by (simp add: lstrip_def list_all_iff)
    ultimately show False by simp
  qed
  have rear: "\<not> startswith (rev (strip p)) (rev w)" if w: "w \<in> set whitespace" for w
    using drop_leading_done [OF rne, of "rev (lstrip p)"] w
    by (simp add: strip_def rstrip_def list_all_iff)
  show "list_all (\<lambda>w. \<not> startswith (strip p) w \<and> \<not> startswith (rev (strip p)) (rev w)) whitespace"
    using front rear by (simp add: list_all_iff)
qed

lemma lower_quoted_not_reserved: "lower (dquote # s) \<notin> set reserved_keywords"
  by (simp add: lower_def lower_special_def lower_char_def reserved_keywords_def)

section \<open>Type mapper\<close>

text \<open>
  Claim C4. For every source type and column name the type mapper returns \<open>TEXT[]\<close>
  when the lowercased column name is \<open>scope\<close>, whatever the source type; otherwise
  the image of the uppercased source type under the fixed table (\<open>INTEGER\<close> to
  \<open>INTEGER\<close>, \<open>REAL\<close> to \<open>DOUBLE PRECISION\<close>, \<open>TEXT\<close> to \<open>TEXT\<close>, \<open>BLOB\<close> to \<open>BYTEA\<close>,
  \<open>BOOLEAN\<close> to \<open>BOOLEAN\<close>, \<open>TIMESTAMP\<close> to \<open>TIMESTAMP\<close>, \<open>JSON\<close> to \<open>JSONB\<close>,
  \<open>VARCHAR(255)\<close> to \<open>VARCHAR(255)\<close>); and \<open>TEXT\<close> for a source type outside the
  table. The rules apply in this order, the first match wins, and a value is always
  returned. Lowercasing and uppercasing are those of the code: \<open>Scope\<close> and \<open>SCOPE\<close>
  are overridden as \<open>scope\<close> is, each key of the table is found in lower or mixed
  case, and so is a declared type that \<open>upper()\<close> alone maps onto a key (with U+017F,
  U+0131 or U+FB06 in place of ASCII letters).
\<close>

theorem sqlite_to_pg_type_rules:
  "sqlite_to_pg_type sourceType columnName =
     (if lower columnName = ''scope'' then ''TEXT[]''
      else if upper sourceType = ''INTEGER'' then ''INTEGER''
      else if upper sourceType = ''REAL'' then ''DOUBLE PRECISION''
      else if upper sourceType = ''TEXT'' then ''TEXT''
      else if upper sourceType = ''BLOB'' then ''BYTEA''
      else if upper sourceType = ''BOOLEAN'' then ''BOOLEAN''
      else if upper sourceType = ''TIMESTAMP'' then ''TIMESTAMP''
      else if upper sourceType = ''JSON'' then ''JSONB''
      else if upper sourceType = ''VARCHAR(255)'' then ''VARCHAR(255)''
      else ''TEXT'') \<and>
   sqlite_to_pg_type sourceType ''scope'' = ''TEXT[]'' \<and>
   sqlite_to_pg_type sourceType ''Scope'' = ''TEXT[]'' \<and>
   sqlite_to_pg_type sourceType ''SCOPE'' = ''TEXT[]'' \<and>
   sqlite_to_pg_type ''INTEGER'' ''id'' = ''INTEGER'' \<and>
   sqlite_to_pg_type ''integer'' ''id'' = ''INTEGER'' \<and>
   sqlite_to_pg_type ''Real'' ''price'' = ''DOUBLE PRECISION'' \<and>
   sqlite_to_pg_type ''text'' ''name'' = ''TEXT'' \<and>
   sqlite_to_pg_type ''blob'' ''data'' = ''BYTEA'' \<and>
   sqlite_to_pg_type ''Boolean'' ''active'' = ''BOOLEAN'' \<and>
   sqlite_to_pg_type ''timestamp'' ''created_at'' = ''TIMESTAMP'' \<and>
   sqlite_to_pg_type ''json'' ''meta'' = ''JSONB'' \<and>
   sqlite_to_pg_type ''varchar(255)'' ''email'' = ''VARCHAR(255)'' \<and>
   sqlite_to_pg_type ([CHR ''j'', CHR 0xC5, CHR 0xBF] @ ''on'') ''meta'' = ''JSONB'' \<and>
   sqlite_to_pg_type ([CHR 0xC4, CHR 0xB1] @ ''nteger'') ''id'' = ''INTEGER'' \<and>
   sqlite_to_pg_type (''TIME'' @ [CHR 0xEF, CHR 0xAC, CHR 0x86] @ ''AMP'') ''at'' = ''TIMESTAMP'' \<and>
   sqlite_to_pg_type ''FOOBAR'' ''x'' = ''TEXT'' \<and>
   sqlite_to_pg_type ''VARCHAR(64)'' ''x'' = ''TEXT'' \<and>
   sqlite_to_pg_type [] ''x'' = ''TEXT''"
proof -
  have rules: "sqlite_to_pg_type t c =
     (if lower c = ''scope'' then ''TEXT[]''
      else if upper t = ''INTEGER'' then ''INTEGER''
      else if upper t = ''REAL'' then ''DOUBLE PRECISION''
      else if upper t = ''TEXT'' then ''TEXT''
      else if upper t = ''BLOB'' then ''BYTEA''
      else if upper t = ''BOOLEAN'' then ''BOOLEAN''
      else if upper t = ''TIMESTAMP'' then ''TIMESTAMP''
      else if upper t = ''JSON'' then ''JSONB''
      else if upper t = ''VARCHAR(255)'' then ''VARCHAR(255)''
      else ''TEXT'')" for t c
    by (simp add: sqlite_to_pg_type_def type_mapping_def)
  have scope: "lower ''scope'' = ''scope''" "lower ''Scope'' = ''scope''" "lower ''SCOPE'' = ''scope''"
    by (simp_all add: lower_def lower_special_def lower_char_def)
  have other: "lower ''id'' \<noteq> ''scope''" "lower ''price'' \<noteq> ''scope''" "lower ''name'' \<noteq> ''scope''"
    "lower ''data'' \<noteq> ''scope''" "lower ''active'' \<noteq> ''scope''"
    "lower ''created_at'' \<noteq> ''scope''" "lower ''meta'' \<noteq> ''scope''"
    "lower ''email'' \<noteq> ''scope''" "lower ''at'' \<noteq> ''scope''" "lower ''x'' \<noteq> ''scope''"
    by (simp_all add: lower_def lower_special_def lower_char_def)
  have up: "upper ''INTEGER'' = ''INTEGER''" "upper ''integer'' = ''INTEGER''"
    "upper ''Real'' = ''REAL''" "upper ''text'' = ''TEXT''" "upper ''blob'' = ''BLOB''"
    "upper ''Boolean'' = ''BOOLEAN''" "upper ''timestamp'' = ''TIMESTAMP''"
    "upper ''json'' = ''JSON''" "upper ''varchar(255)'' = ''VARCHAR(255)''"
    "upper ([CHR ''j'', CHR 0xC5, CHR 0xBF] @ ''on'') = ''JSON''"
    "upper ([CHR 0xC4, CHR 0xB1] @ ''nteger'') = ''INTEGER''"
    "upper (''TIME'' @ [CHR 0xEF, CHR 0xAC, CHR 0x86] @ ''AMP'') = ''TIMESTAMP''"
    "upper ''FOOBAR'' = ''FOOBAR''" "upper ''VARCHAR(64)'' = ''VARCHAR(64)''" "upper [] = []"
    by (simp_all add: upper_def upper_special_def upper_char_def)
  show ?thesis
    using other unfolding rules scope up by simp
qed

theorem sqlite_to_pg_type_rules_witness:
  "sqlite_to_pg_type ''Integer'' ''Id'' = ''INTEGER'' \<and>
   sqlite_to_pg_type ''Integer'' ''sCoPe'' = ''TEXT[]'' \<and>
   sqlite_to_pg_type ''numeric'' ''amount'' = ''TEXT''"
  using sqlite_to_pg_type_rules [of "''Integer''" "''Id''"]
    sqlite_to_pg_type_rules [of "''Integer''" "''sCoPe''"]
    sqlite_to_pg_type_rules [of "''numeric''" "''amount''"]
  by (simp add: lower_def lower_special_def lower_char_def upper_def upper_special_def
        upper_char_def)

section \<open>Identifier sanitizer\<close>

text \<open>
  Claim C8. For every identifier the sanitizer returns the identifier wrapped in
  double quotes exactly when its lowercased form is one of \<open>user\<close>, \<open>group\<close>, \<open>order\<close>,
  \<open>table\<close>, \<open>select\<close>, \<open>where\<close>, \<open>from\<close>, \<open>index\<close>, \<open>constraint\<close>, and the
  identifier unchanged otherwise; it is a total function without error cases. The
  test is case-insensitive: every reserved word is quoted in upper or mixed case too,
  and an identifier that only contains a reserved word is not.
\<close>

theorem get_safe_identifier_reserved:
  "get_safe_identifier identifier =
     (if lower identifier \<in> {''user'', ''group'', ''order'', ''table'', ''select'', ''where'',
                               ''from'', ''index'', ''constraint''}
      then [dquote] @ identifier @ [dquote]
      else identifier) \<and>
   (get_safe_identifier identifier = [dquote] @ identifier @ [dquote] \<longleftrightarrow>
      lower identifier \<in> {''user'', ''group'', ''order'', ''table'', ''select'', ''where'',
                            ''from'', ''index'', ''constraint''}) \<and>
   get_safe_identifier ''user'' = [dquote] @ ''user'' @ [dquote] \<and>
   get_safe_identifier ''User'' = [dquote] @ ''User'' @ [dquote] \<and>
   get_safe_identifier ''GROUP'' = [dquote] @ ''GROUP'' @ [dquote] \<and>
   get_safe_identifier ''ORDER'' = [dquote] @ ''ORDER'' @ [dquote] \<and>
   get_safe_identifier ''Table'' = [dquote] @ ''Table'' @ [dquote] \<and>
   get_safe_identifier ''SeLeCt'' = [dquote] @ ''SeLeCt'' @ [dquote] \<and>
   get_safe_identifier ''WHERE'' = [dquote] @ ''WHERE'' @ [dquote] \<and>
   get_safe_identifier ''From'' = [dquote] @ ''From'' @ [dquote] \<and>
   get_safe_identifier ''INDEX'' = [dquote] @ ''INDEX'' @ [dquote] \<and>
   get_safe_identifier ''Constraint'' = [dquote] @ ''Constraint'' @ [dquote] \<and>
   get_safe_identifier ''orders'' = ''orders'' \<and>
   get_safe_identifier ''Users'' = ''Users'' \<and>
   get_safe_identifier ''chat'' = ''chat'' \<and>
   get_safe_identifier ''join'' = ''join'' \<and>
   get_safe_identifier [] = []"
proof -
  have low: "lower ''user'' = ''user''" "lower ''User'' = ''user''" "lower ''GROUP'' = ''group''"
    "lower ''ORDER'' = ''order''" "lower ''Table'' = ''table''" "lower ''SeLeCt'' = ''select''"
    "lower ''WHERE'' = ''where''" "lower ''From'' = ''from''" "lower ''INDEX'' = ''index''"
    "lower ''Constraint'' = ''constraint''" "lower ''orders'' = ''orders''"
    "lower ''Users'' = ''users''" "lower ''chat'' = ''chat''" "lower ''join'' = ''join''"
    "lower [] = []"
    by (simp_all add: lower_def lower_special_def lower_char_def)
  show ?thesis
    unfolding get_safe_identifier_def reserved_keywords_def low by simp
qed

theorem get_safe_identifier_reserved_witness:
  "get_safe_identifier ''Order'' = [dquote] @ ''Order'' @ [dquote] \<and>
   get_safe_identifier ''order_items'' = ''order_items''"
  using get_safe_identifier_reserved [of "''Order''"]
    get_safe_identifier_reserved [of "''order_items''"]
  by (simp add: lower_def lower_special_def lower_char_def)

text \<open>
  Claim C10. The sanitizer is idempotent: applying it twice gives what applying it once
  gives, since a quoted result begins with a double quote and so is never reserved.
\<close>

theorem get_safe_identifier_idempotent:
  "get_safe_identifier (get_safe_identifier s) = get_safe_identifier s"
  by (simp add: get_safe_identifier_def lower_quoted_not_reserved)

section \<open>Row translator\<close>

text \<open>
  Claim C1. For a column whose destination kind is neither boolean nor array and a
  value that is a string, the literal is the value with every single quote doubled,
  between two single quotes. Doubling is the only escaping: the characters other than
  the single quote are those of the value, in their order, and none is added.
\<close>

theorem text_literal_doubles_quotes:
  assumes "types col_name \<noteq> Some ''boolean''" and "types col_name \<noteq> Some ''ARRAY''"
  shows "\<exists>lit. translate_value (types col_name) (PyStr s) = Inr lit \<and>
     lit = [squote] @ concat (map (\<lambda>c. if c = squote then [squote, squote] else [c]) s) @ [squote] \<and>
     filter (\<lambda>c. c \<noteq> squote) lit = filter (\<lambda>c. c \<noteq> squote) s \<and>
     count_list lit squote = 2 * count_list s squote + 2"
  using assms str_replace_keeps_other [of squote s] str_replace_doubles [of squote s]
  by (simp add: translate_value_def quote_literal_def str_replace_def)

theorem text_literal_doubles_quotes_witness:
  "pg_column_types [(''name'', ''text'', ''text'')] ''name'' \<noteq> Some ''boolean'' \<and>
   pg_column_types [(''name'', ''text'', ''text'')] ''name'' \<noteq> Some ''ARRAY'' \<and>
   translate_value (pg_column_types [(''name'', ''text'', ''text'')] ''name'')
       (PyStr (''O'' @ [squote] @ ''Brien''))
     = Inr ([squote] @ ''O'' @ [squote, squote] @ ''Brien'' @ [squote])"
  using text_literal_doubles_quotes
    [of "pg_column_types [(''name'', ''text'', ''text'')]" "''name''" "''O'' @ [squote] @ ''Brien''"]
  by (simp add: pg_column_types_def)

text \<open>
  Claim C2, as amended. For a column whose destination kind is array: a raw value that
  is NULL or otherwise falsy (the empty string, empty bytes, 0, 0.0) gives the literal
  \<open>NULL\<close>; a non-empty string is split on the comma, each piece is stripped of
  surrounding whitespace, has its single quotes doubled and is put between single
  quotes, and the literal is \<open>ARRAY[\<close>, the pieces joined by commas in their original
  order, \<open>]\<close>; any other raw value (a number other than zero, non-empty bytes) raises
  and gives no literal. The pieces are those of the raw value: none holds a comma, and
  joined by commas they give the raw value back. Stripping a piece \<open>p\<close> removes a run of
  whitespace characters at each end and leaves a string that neither begins nor ends
  with a whitespace character.
\<close>

theorem array_literal:
  assumes "types col_name = Some ''ARRAY''"
  shows "(falsy v \<longrightarrow> translate_value (types col_name) v = Inr ''NULL'') \<and>
     (s \<noteq> [] \<longrightarrow>
        translate_value (types col_name) (PyStr s) =
          Inr (''ARRAY['' @
               join '',''
                 (map (\<lambda>p. [squote] @
                            concat (map (\<lambda>c. if c = squote then [squote, squote] else [c])
                                        (strip p)) @
                            [squote])
                      (split CHR '','' s)) @
               '']'')) \<and>
     (\<not> falsy v \<and> (\<forall>s. v \<noteq> PyStr s) \<longrightarrow>
        translate_value (types col_name) v =
          Inl (case v of PyBytes b \<Rightarrow> TypeError | _ \<Rightarrow> AttributeError)) \<and>
     join '','' (split CHR '','' s) = s \<and>
     list_all (\<lambda>p. CHR '','' \<notin> set p) (split CHR '','' s) \<and>
     (\<exists>before after. list_all (\<lambda>w. w \<in> set whitespace) before \<and>
        list_all (\<lambda>w. w \<in> set whitespace) after \<and>
        p = concat before @ strip p @ concat after) \<and>
     list_all (\<lambda>w. \<not> startswith (strip p) w \<and> \<not> startswith (rev (strip p)) (rev w))
        whitespace"
proof -
  have null: "falsy v \<longrightarrow> translate_value (types col_name) v = Inr ''NULL''"
    using assms by (simp add: translate_value_def)
  have arr: "s \<noteq> [] \<longrightarrow>
        translate_value (types col_name) (PyStr s) =
          Inr (''ARRAY['' @
               join '',''
                 (map (\<lambda>p. [squote] @
                            concat (map (\<lambda>c. if c = squote then [squote, squote] else [c])
                                        (strip p)) @
                            [squote])
                      (split CHR '','' s)) @
               '']'')"
    using assms by (simp add: translate_value_def quote_literal_def str_replace_def)
  have raises: "\<not> falsy v \<and> (\<forall>s. v \<noteq> PyStr s) \<longrightarrow>
        translate_value (types col_name) v =
          Inl (case v of PyBytes b \<Rightarrow> TypeError | _ \<Rightarrow> AttributeError)"
    using assms by (cases v) (simp_all add: translate_value_def)
  show ?thesis
    using null arr raises join_split [of "CHR '',''" s] split_pieces_free [of "CHR '',''" s]
      strip_spec [of p]
    by simp
qed

theorem array_literal_witness:
  "pg_column_types [(''scope'', ''ARRAY'', ''_text'')] ''scope'' = Some ''ARRAY'' \<and>
   ''a,b,c'' \<noteq> [] \<and>
   translate_value (pg_column_types [(''scope'', ''ARRAY'', ''_text'')] ''scope'') (PyStr ''a,b,c'')
     = Inr (''ARRAY['' @ [squote] @ ''a'' @ [squote] @ '','' @ [squote] @ ''b'' @ [squote] @
            '','' @ [squote] @ ''c'' @ [squote] @ '']'') \<and>
   translate_value (pg_column_types [(''scope'', ''ARRAY'', ''_text'')] ''scope'')
       (PyStr ('' read ,'' @ [CHR 0x09, CHR 0xC2, CHR 0xA0] @ ''it'' @ [squote] @ ''s me'' @
               [CHR 0xE2, CHR 0x80, CHR 0x83, CHR 0x0A]))
     = Inr (''ARRAY['' @ [squote] @ ''read'' @ [squote] @ '','' @ [squote] @ ''it'' @
            [squote, squote] @ ''s me'' @ [squote] @ '']'') \<and>
   falsy (PyInt 0) \<and>
   translate_value (pg_column_types [(''scope'', ''ARRAY'', ''_text'')] ''scope'') (PyInt 0)
     = Inr ''NULL'' \<and>
   strip ([CHR 0x09, CHR 0x0A, CHR 0x0B, CHR 0x0C, CHR 0x0D, CHR 0x1C, CHR 0x1D, CHR 0x1E,
           CHR 0x1F, CHR 0x20, CHR 0xC2, CHR 0x85, CHR 0xC2, CHR 0xA0, CHR 0xE1, CHR 0x9A,
           CHR 0x80, CHR 0xE2, CHR 0x80, CHR 0x80, CHR 0xE2, CHR 0x80, CHR 0x8A, CHR 0xE2,
           CHR 0x80, CHR 0xA8, CHR 0xE2, CHR 0x80, CHR 0xA9, CHR 0xE2, CHR 0x80, CHR 0xAF,
           CHR 0xE2, CHR 0x81, CHR 0x9F, CHR 0xE3, CHR 0x80, CHR 0x80] @ ''a b'' @
          [CHR 0xE3, CHR 0x80, CHR 0x80, CHR 0xC2, CHR 0xA0, CHR 0x20, CHR 0x09]) = ''a b''"
proof -
  have h: "pg_column_types [(''scope'', ''ARRAY'', ''_text'')] ''scope'' = Some ''ARRAY''"
    by (simp add: pg_column_types_def)
  note plain = array_literal [where types = "pg_column_types [(''scope'', ''ARRAY'', ''_text'')]"
      and col_name = "''scope''" and s = "''a,b,c''" and v = "PyInt 0" and p = "[]", OF h]
  note spaced = array_literal [where types = "pg_column_types [(''scope'', ''ARRAY'', ''_text'')]"
      and col_name = "''scope''" and v = "PyInt 0" and p = "[]" and
      s = "'' read ,'' @ [CHR 0x09, CHR 0xC2, CHR 0xA0] @ ''it'' @ [squote] @ ''s me'' @
           [CHR 0xE2, CHR 0x80, CHR 0x83, CHR 0x0A]", OF h]
  have zero: "translate_value (pg_column_types [(''scope'', ''ARRAY'', ''_text'')] ''scope'')
      (PyInt 0) = Inr ''NULL''"
    using plain [THEN conjunct1] by simp
  have abc: "translate_value (pg_column_types [(''scope'', ''ARRAY'', ''_text'')] ''scope'')
      (PyStr ''a,b,c'')
     = Inr (''ARRAY['' @ [squote] @ ''a'' @ [squote] @ '','' @ [squote] @ ''b'' @ [squote] @
            '','' @ [squote] @ ''c'' @ [squote] @ '']'')"
    using plain [THEN conjunct2, THEN conjunct1]
    by (simp add: strip_def lstrip_def rstrip_def whitespace_def
        split_Cons del: split.simps(2))
  have blanks: "translate_value (pg_column_types [(''scope'', ''ARRAY'', ''_text'')] ''scope'')
       (PyStr ('' read ,'' @ [CHR 0x09, CHR 0xC2, CHR 0xA0] @ ''it'' @ [squote] @ ''s me'' @
               [CHR 0xE2, CHR 0x80, CHR 0x83, CHR 0x0A]))
     = Inr (''ARRAY['' @ [squote] @ ''read'' @ [squote] @ '','' @ [squote] @ ''it'' @
            [squote, squote] @ ''s me'' @ [squote] @ '']'')"
    using spaced [THEN conjunct2, THEN conjunct1]
    by (simp add: strip_def lstrip_def rstrip_def whitespace_def
        split_Cons del: split.simps(2))
  have every: "strip ([CHR 0x09, CHR 0x0A, CHR 0x0B, CHR 0x0C, CHR 0x0D, CHR 0x1C, CHR 0x1D,
           CHR 0x1E, CHR 0x1F, CHR 0x20, CHR 0xC2, CHR 0x85, CHR 0xC2, CHR 0xA0, CHR 0xE1,
           CHR 0x9A, CHR 0x80, CHR 0xE2, CHR 0x80, CHR 0x80, CHR 0xE2, CHR 0x80, CHR 0x8A,
           CHR 0xE2, CHR 0x80, CHR 0xA8, CHR 0xE2, CHR 0x80, CHR 0xA9, CHR 0xE2, CHR 0x80,
           CHR 0xAF, CHR 0xE2, CHR 0x81, CHR 0x9F, CHR 0xE3, CHR 0x80, CHR 0x80] @ ''a b'' @
          [CHR 0xE3, CHR 0x80, CHR 0x80, CHR 0xC2, CHR 0xA0, CHR 0x20, CHR 0x09]) = ''a b''"
    by (simp add: strip_def lstrip_def rstrip_def whitespace_def
        split_Cons del: split.simps(2))
  show ?thesis
    by (intro conjI) (rule h zero abc blanks every, simp, rule abc, rule blanks, simp,
      rule zero, rule every)
qed

lemma array_literal_examples:
  "translate_value (Some ''ARRAY'') (PyStr '' read , write '')
     = Inr (''ARRAY['' @ [squote] @ ''read'' @ [squote] @ '','' @ [squote] @ ''write'' @ [squote] @ '']'')"
  "translate_value (Some ''ARRAY'')
     (PyStr ([CHR 0x09] @ ''a b'' @ [CHR 0xC2, CHR 0xA0] @ '','' @ [CHR 0xE2, CHR 0x80, CHR 0x83] @
             ''c'' @ [CHR 0x0A]))
     = Inr (''ARRAY['' @ [squote] @ ''a b'' @ [squote] @ '','' @ [squote] @ ''c'' @ [squote] @ '']'')"
  "translate_value (Some ''ARRAY'') (PyStr (''a,,it'' @ [squote] @ ''s''))
     = Inr (''ARRAY['' @ [squote] @ ''a'' @ [squote] @ '','' @ [squote, squote] @ '','' @
            [squote] @ ''it'' @ [squote, squote] @ ''s'' @ [squote] @ '']'')"
  "translate_value (Some ''ARRAY'') (PyStr []) = Inr ''NULL''"
  "translate_value (Some ''ARRAY'') PyNone = Inr ''NULL''"
  "translate_value (Some ''ARRAY'') (PyBytes []) = Inr ''NULL''"
  "translate_value (Some ''ARRAY'') (PyBytes ''a,b'') = Inl TypeError"
  "translate_value (Some ''ARRAY'') (PyFloat ''2.5'') = Inl AttributeError"
  by (simp_all add: translate_value_def quote_literal_def str_replace_def strip_def lstrip_def
        rstrip_def whitespace_def
        split_Cons del: split.simps(2))

text \<open>
  Claim C2 as stated fails: the integer 7 in a column of destination kind array is
  neither NULL nor empty, and no \<open>ARRAY[...]\<close> literal is emitted for it; its \<open>split\<close>
  does not exist and the translator raises \<open>AttributeError\<close>.
\<close>

theorem array_literal_raises:
  "translate_value (pg_column_types [(''scope'', ''ARRAY'', ''_text'')] ''scope'') (PyInt 7)
     = Inl AttributeError"
  by (simp add: pg_column_types_def translate_value_def)

text \<open>
  Claim C3. For a column whose destination kind is boolean and a raw value that is not
  NULL, the literal is \<open>true\<close> exactly when the value equals 1, that is the integer 1
  or the float 1.0, and \<open>false\<close> for every other value, among them 0, 2 and the
  negative numbers.
\<close>

theorem boolean_literal:
  assumes "types col_name = Some ''boolean''" and "v \<noteq> PyNone"
  shows "(translate_value (types col_name) v = Inr ''true'' \<longleftrightarrow> v = PyInt 1 \<or> v = PyFloat ''1.0'') \<and>
     (translate_value (types col_name) v = Inr ''false'' \<longleftrightarrow> \<not> (v = PyInt 1 \<or> v = PyFloat ''1.0''))"
  using assms by (cases v) (simp_all add: translate_value_def)

theorem boolean_literal_witness:
  "pg_column_types [(''active'', ''boolean'', ''bool'')] ''active'' = Some ''boolean'' \<and>
   PyInt 1 \<noteq> PyNone \<and>
   translate_value (pg_column_types [(''active'', ''boolean'', ''bool'')] ''active'') (PyInt 1)
     = Inr ''true''"
  using boolean_literal [of "pg_column_types [(''active'', ''boolean'', ''bool'')]" "''active''" "PyInt 1"]
  by (simp add: pg_column_types_def)

lemma boolean_literal_examples:
  "translate_value (Some ''boolean'') (PyInt 0) = Inr ''false''"
  "translate_value (Some ''boolean'') (PyInt 2) = Inr ''false''"
  "translate_value (Some ''boolean'') (PyInt (- 1)) = Inr ''false''"
  "translate_value (Some ''boolean'') (PyFloat ''1.0'') = Inr ''true''"
  "translate_value (Some ''boolean'') (PyStr ''1'') = Inr ''false''"
  "translate_value (Some ''boolean'') PyNone = Inr ''NULL''"
  by (simp_all add: translate_value_def)

lemma translate_value_succeeds_iff:
  "(\<exists>lit. translate_value col_type v = Inr lit) \<longleftrightarrow>
     \<not> (col_type = Some ''ARRAY'' \<and> \<not> falsy v \<and> (\<forall>s. v \<noteq> PyStr s))"
  by (cases v) (simp_all add: translate_value_def)

lemma translate_pairs_Inr:
  "translate_pairs types ps = Inr out \<Longrightarrow>
     length out = length ps \<and>
     (\<forall>i<length ps. translate_value (types (fst (ps ! i))) (snd (ps ! i)) = Inr (out ! i))"
proof (induction ps arbitrary: out)
  case Nil
  then show ?case by simp
next
  case (Cons p ps)
  obtain col_name v where p: "p = (col_name, v)" by (cases p)
  from Cons.prems p obtain lit lits where
    lit: "translate_value (types col_name) v = Inr lit" and
    lits: "translate_pairs types ps = Inr lits" and
    out: "out = lit # lits"
    by (auto split: sum.splits)
  from Cons.IH [OF lits] have len: "length lits = length ps" and
    nth: "\<forall>i<length ps. translate_value (types (fst (ps ! i))) (snd (ps ! i)) = Inr (lits ! i)"
    by simp_all
  show ?case
  proof (intro conjI allI impI)
    show "length out = length (p # ps)" using out len by simp
  next
    fix i assume "i < length (p # ps)"
    then show "translate_value (types (fst ((p # ps) ! i))) (snd ((p # ps) ! i)) = Inr (out ! i)"
      using p lit out nth by (cases i) simp_all
  qed
qed

lemma translate_pairs_succeeds_iff:
  "(\<exists>out. translate_pairs types ps = Inr out) \<longleftrightarrow>
     (\<forall>i<length ps. \<exists>lit. translate_value (types (fst (ps ! i))) (snd (ps ! i)) = Inr lit)"
proof (induction ps)
  case Nil
  show ?case by simp
next
  case (Cons p ps)
  obtain col_name v where p: "p = (col_name, v)" by (cases p)
  have "(\<exists>out. translate_pairs types (p # ps) = Inr out) \<longleftrightarrow>
      (\<exists>lit. translate_value (types col_name) v = Inr lit) \<and>
      (\<exists>lits. translate_pairs types ps = Inr lits)"
    using p by (auto split: sum.splits)
  also have "\<dots> \<longleftrightarrow> (\<exists>lit. translate_value (types col_name) v = Inr lit) \<and>
      (\<forall>i<length ps. \<exists>lit. translate_value (types (fst (ps ! i))) (snd (ps ! i)) = Inr lit)"
    using Cons.IH by simp
  also have "\<dots> \<longleftrightarrow> (\<forall>i<length (p # ps). \<exists>lit.
      translate_value (types (fst ((p # ps) ! i))) (snd ((p # ps) ! i)) = Inr lit)"
    using p by (auto simp: less_Suc_eq_0_disj)
  finally show ?case .
qed

lemma str_int_1: "str_int 1 = ''1''"
  by (simp add: str_int_def str_nat.simps)

text \<open>
  Claim C9, as amended. For a row whose column names and raw values have the same
  length and any destination column types, the row translator returns an output
  exactly when no column of destination kind array holds a value that is neither
  falsy nor a string (it raises otherwise); whenever it returns, the output has
  exactly one literal per input column, and the literal at each position is the
  translation of the value at that position under the type of the column at that
  position.
\<close>

theorem translate_row_shape:
  assumes "length column_names = length row"
  shows "((\<exists>out. translate_row column_names row types = Inr out) \<longleftrightarrow>
          (\<forall>i<length row. \<not> (types (column_names ! i) = Some ''ARRAY'' \<and> \<not> falsy (row ! i) \<and>
                                (\<forall>s. row ! i \<noteq> PyStr s)))) \<and>
         (\<forall>out. translate_row column_names row types = Inr out \<longrightarrow>
            length out = length column_names \<and>
            (\<forall>i<length column_names.
               translate_value (types (column_names ! i)) (row ! i) = Inr (out ! i)))"
proof (intro conjI allI impI)
  show "(\<exists>out. translate_row column_names row types = Inr out) \<longleftrightarrow>
          (\<forall>i<length row. \<not> (types (column_names ! i) = Some ''ARRAY'' \<and> \<not> falsy (row ! i) \<and>
                                (\<forall>s. row ! i \<noteq> PyStr s)))"
    unfolding translate_row_def translate_pairs_succeeds_iff translate_value_succeeds_iff
    using assms by simp
next
  fix out assume "translate_row column_names row types = Inr out"
  then show "length out = length column_names"
    using translate_pairs_Inr [of types "zip column_names row" out] assms
    by (simp add: translate_row_def)
next
  fix out i assume "translate_row column_names row types = Inr out" and "i < length column_names"
  then show "translate_value (types (column_names ! i)) (row ! i) = Inr (out ! i)"
    using translate_pairs_Inr [of types "zip column_names row" out] assms
    by (simp add: translate_row_def)
qed

theorem translate_row_shape_witness:
  "length [''id'', ''name'', ''scope''] =
     length [PyInt 1, PyStr (''A'' @ [squote] @ ''s''), PyStr ''read,write''] \<and>
   translate_row [''id'', ''name'', ''scope'']
      [PyInt 1, PyStr (''A'' @ [squote] @ ''s''), PyStr ''read,write'']
      (pg_column_types [(''id'', ''integer'', ''int4''), (''name'', ''text'', ''text''),
                        (''scope'', ''ARRAY'', ''_text'')])
    = Inr [''1'', [squote] @ ''A'' @ [squote, squote] @ ''s'' @ [squote],
           ''ARRAY['' @ [squote] @ ''read'' @ [squote] @ '','' @ [squote] @ ''write'' @
           [squote] @ '']'']"
  using translate_row_shape [of "[''id'', ''name'', ''scope'']"
      "[PyInt 1, PyStr (''A'' @ [squote] @ ''s''), PyStr ''read,write'']"
      "pg_column_types [(''id'', ''integer'', ''int4''), (''name'', ''text'', ''text''),
                        (''scope'', ''ARRAY'', ''_text'')]"]
  by (simp add: translate_row_def pg_column_types_def translate_value_def quote_literal_def
        str_replace_def strip_def lstrip_def rstrip_def whitespace_def str_int_1
        split_Cons del: split.simps(2))

text \<open>
  Claim C9 as stated fails: an integer 5 in a column of destination kind array has no
  \<open>split\<close>, the translator raises \<open>AttributeError\<close> and there is no output.
\<close>

theorem translate_row_raises:
  "translate_row [''scope''] [PyInt 5] (pg_column_types [(''scope'', ''ARRAY'', ''_text'')])
     = Inl AttributeError"
  by (simp add: translate_row_def pg_column_types_def translate_value_def)

section \<open>Migration loop\<close>




lemma migrate_table_populated:
  "pg_table_exists dest pg (table_name t) \<Longrightarrow>
   pg_row_count dest pg (get_safe_identifier (table_name t)) > 0 \<Longrightarrow>
   migrate_table dest pg t = (pg, [], None)"
  by (simp add: migrate_table_def Let_def)

lemma migrate_log_tables:
  "map (\<lambda>entry. fst (snd entry)) (fst (snd (migrate dest pg tables))) =
     take (length (fst (snd (migrate dest pg tables)))) (map table_name tables)"
  by (induction tables arbitrary: pg) (simp_all add: case_prod_beta split: option.splits)

lemma migrate_log_complete:
  "snd (snd (migrate dest pg tables)) = None \<Longrightarrow>
     length (fst (snd (migrate dest pg tables))) = length tables"
  by (induction tables arbitrary: pg) (simp_all add: case_prod_beta split: option.splits)



text \<open>
  Claim C6. In a run, every table that exists at the destination with a row count above
  0 when it is processed has no statement sent for it, neither a create-table nor an
  insert. The log names the processed tables in the order of the source.
\<close>

theorem populated_table_not_migrated:
  "(\<forall>entry \<in> set (fst (snd (migrate dest pg tables))).
      pg_table_exists dest (fst entry) (fst (snd entry)) \<and>
      pg_row_count dest (fst entry) (get_safe_identifier (fst (snd entry))) > 0
      \<longrightarrow> snd (snd entry) = []) \<and>
   map (\<lambda>entry. fst (snd entry)) (fst (snd (migrate dest pg tables))) =
     take (length (fst (snd (migrate dest pg tables)))) (map table_name tables)"
proof
  show "\<forall>entry \<in> set (fst (snd (migrate dest pg tables))).
      pg_table_exists dest (fst entry) (fst (snd entry)) \<and>
      pg_row_count dest (fst entry) (get_safe_identifier (fst (snd entry))) > 0
      \<longrightarrow> snd (snd entry) = []"
  proof (induction tables arbitrary: pg)
    case Nil
    show ?case by simp
  next
    case (Cons t ts)
    obtain pg1 log r where mt: "migrate_table dest pg t = (pg1, log, r)"
      by (cases "migrate_table dest pg t") auto
    have here: "pg_table_exists dest pg (table_name t) \<and>
       pg_row_count dest pg (get_safe_identifier (table_name t)) > 0 \<longrightarrow> log = []"
      using mt migrate_table_populated [of dest pg t] by auto
    show ?case
    proof (cases r)
      case (Some e)
      then show ?thesis using mt here by simp
    next
      case None
      obtain pg2 logs r2 where ms: "migrate dest pg1 ts = (pg2, logs, r2)"
        by (cases "migrate dest pg1 ts") auto
      show ?thesis using mt None ms here Cons.IH [of pg1] by simp
    qed
  qed
next
  show "map (\<lambda>entry. fst (snd entry)) (fst (snd (migrate dest pg tables))) =
     take (length (fst (snd (migrate dest pg tables)))) (map table_name tables)"
    by (rule migrate_log_tables)
qed

theorem populated_table_not_migrated_witness:
  "pg_table_exists (recording_destination [(''user'', [(''id'', ''integer'', ''int4'')], 3)])
      [] ''user'' \<and>
   0 < pg_row_count (recording_destination [(''user'', [(''id'', ''integer'', ''int4'')], 3)]) []
         (get_safe_identifier ''user'') \<and>
   fst (snd (migrate (recording_destination [(''user'', [(''id'', ''integer'', ''int4'')], 3)]) []
      [\<lparr> table_name = ''user'', table_info = [(''id'', ''INTEGER'')], description = [''id''],
         table_rows = [[PyInt 1]] \<rparr>]))
    = [([], ''user'', [])]"
  using populated_table_not_migrated
    [of "recording_destination [(''user'', [(''id'', ''integer'', ''int4'')], 3)]" "[]"
        "[\<lparr> table_name = ''user'', table_info = [(''id'', ''INTEGER'')], description = [''id''],
            table_rows = [[PyInt 1]] \<rparr>]"]
  by (simp add: recording_destination_def migrate_table_def Let_def
        get_safe_identifier_def reserved_keywords_def lower_def lower_special_def lower_char_def)

section \<open>End-to-end scenario\<close>

text \<open>
  Claim C7 expects, for the table \<open>orders\<close> absent from the destination, a create-table
  statement with \<open>scope\<close> as an array type and then one insert with the values
  \<open>1, 'A''s', ARRAY['read','write']\<close>. The run sends the create-table statement with
  \<open>scope TEXT[]\<close> and one insert, but the insert carries \<open>'read,write'\<close>: the
  destination column types are read before the table is created, so for a new table
  \<open>pg_column_types\<close> is empty and no value is formatted as an array.
\<close>

theorem orders_end_to_end:
  "migrate (recording_destination []) [] [orders_table] =
     ([''CREATE TABLE IF NOT EXISTS orders (id INTEGER, name TEXT, scope TEXT[])'',
       ''INSERT INTO orders (id, name, scope) VALUES (1, '' @ [squote] @ ''A'' @ [squote, squote] @
          ''s'' @ [squote] @ '', '' @ [squote] @ ''read,write'' @ [squote] @ '')''],
      [([], ''orders'',
        [CreateTable ''CREATE TABLE IF NOT EXISTS orders (id INTEGER, name TEXT, scope TEXT[])'',
         Insert (''INSERT INTO orders (id, name, scope) VALUES (1, '' @ [squote] @ ''A'' @
                 [squote, squote] @ ''s'' @ [squote] @ '', '' @ [squote] @ ''read,write'' @
                 [squote] @ '')'')])],
      None)"
  by (simp add: orders_table_def recording_destination_def migrate_table_def migrate_data_def
        Let_def pg_column_types_def create_table_sql_def insert_sql_def translate_row_def
        translate_value_def quote_literal_def str_replace_def str_int_1
        get_safe_identifier_def reserved_keywords_def lower_def lower_special_def lower_char_def
        sqlite_to_pg_type_def type_mapping_def upper_def upper_special_def upper_char_def)

text \<open>
  The sibling path: when the destination already holds an empty table \<open>orders\<close> whose
  column \<open>scope\<close> is an array, the same row is inserted with the array literal.
\<close>

lemma orders_into_existing:
  "migrate (recording_destination
              [(''orders'',
                [(''id'', ''integer'', ''int4''), (''name'', ''text'', ''text''),
                 (''scope'', ''ARRAY'', ''_text'')], 0)])
           [] [orders_table] =
     ([''INSERT INTO orders (id, name, scope) VALUES (1, '' @ [squote] @ ''A'' @ [squote, squote] @
          ''s'' @ [squote] @ '', ARRAY['' @ [squote] @ ''read'' @ [squote] @ '','' @ [squote] @
          ''write'' @ [squote] @ ''])''],
      [([], ''orders'',
        [Insert (''INSERT INTO orders (id, name, scope) VALUES (1, '' @ [squote] @ ''A'' @
                 [squote, squote] @ ''s'' @ [squote] @ '', ARRAY['' @ [squote] @ ''read'' @
                 [squote] @ '','' @ [squote] @ ''write'' @ [squote] @ ''])'')])],
      None)"
  by (simp add: orders_table_def recording_destination_def migrate_table_def migrate_data_def
        Let_def pg_column_types_def create_table_sql_def insert_sql_def translate_row_def
        translate_value_def quote_literal_def str_replace_def str_int_1 strip_def lstrip_def rstrip_def whitespace_def
        get_safe_identifier_def reserved_keywords_def lower_def lower_special_def lower_char_def
        sqlite_to_pg_type_def type_mapping_def upper_def upper_special_def upper_char_def
        split_Cons del: split.simps(2))

end
